theory Spec2Isabelle
  imports Main "HOL-Library.Char_ord" "HOL-Library.List_Lexorder"
begin

section \<open>The entity URI grammar (entities\_service/models/\_\_init\_\_.py)\<close>

text \<open>
  \<^verbatim>\<open>URI_REGEX = re.compile(
      r"^(?P<namespace>https?://.+)/(?P<version>\d(?:\.\d+){0,2})/(?P<name>[^/#?]+)$")\<close>

  Strings are lists of 8-bit characters; on these \<^verbatim>\<open>\d\<close> is exactly \<^verbatim>\<open>[0-9]\<close>.
  The three groups are matched by the functions below, one per group.
\<close>

definition is_digit :: "char \<Rightarrow> bool" where
  "is_digit c = (CHR ''0'' \<le> c \<and> c \<le> CHR ''9'')"

text \<open>\<^verbatim>\<open>(?:\.\d+){0,2}\<close>: at most \<open>n\<close> further groups, each a dot and one or more digits.\<close>

fun version_groups :: "nat \<Rightarrow> string \<Rightarrow> bool" where
  "version_groups n [] = True"
| "version_groups 0 (c # cs) = False"
| "version_groups (Suc n) (c # cs) =
     (c = CHR ''.'' \<and> takeWhile is_digit cs \<noteq> [] \<and> version_groups n (dropWhile is_digit cs))"

text \<open>\<^verbatim>\<open>\d(?:\.\d+){0,2}\<close>\<close>

definition is_version :: "string \<Rightarrow> bool" where
  "is_version v = (case v of [] \<Rightarrow> False | d # r \<Rightarrow> is_digit d \<and> version_groups 2 r)"

text \<open>\<^verbatim>\<open>[^/#?]+\<close>\<close>

definition is_name :: "string \<Rightarrow> bool" where
  "is_name n = (n \<noteq> [] \<and> list_all (\<lambda>c. c \<noteq> CHR ''/'' \<and> c \<noteq> CHR ''#'' \<and> c \<noteq> CHR ''?'') n)"

text \<open>\<^verbatim>\<open>.+\<close>: one or more characters, none of them a newline.\<close>

definition is_any1 :: "string \<Rightarrow> bool" where
  "is_any1 r = (r \<noteq> [] \<and> list_all (\<lambda>c. c \<noteq> CHR 0x0A) r)"

text \<open>\<^verbatim>\<open>https?://.+\<close>\<close>

definition is_namespace :: "string \<Rightarrow> bool" where
  "is_namespace ns =
     ((take 7 ns = ''http://'' \<and> is_any1 (drop 7 ns)) \<or>
      (take 8 ns = ''https://'' \<and> is_any1 (drop 8 ns)))"

text \<open>
  \<^verbatim>\<open>(?P<version>...)/(?P<name>...)$\<close> on the text that follows the slash after the
  namespace. Neither group can hold a slash, so the version ends at the first one.
\<close>

definition match_tail :: "string \<Rightarrow> (string \<times> string) option" where
  "match_tail r =
     (case dropWhile (\<lambda>c. c \<noteq> CHR ''/'') r of
        [] \<Rightarrow> None
      | s # nm \<Rightarrow>
          (let ver = takeWhile (\<lambda>c. c \<noteq> CHR ''/'') r
           in if is_version ver \<and> is_name nm then Some (ver, nm) else None))"

text \<open>
  The namespace group is greedy: the longest prefix is tried first, and a shorter one only
  when the rest of the pattern does not match behind it.
\<close>

fun match_from :: "nat \<Rightarrow> string \<Rightarrow> (string \<times> string \<times> string) option" where
  "match_from 0 s = None"
| "match_from (Suc i) s =
     (case (if is_namespace (take (Suc i) s)
            then (case drop (Suc i) s of
                    [] \<Rightarrow> None
                  | c # r \<Rightarrow> if c = CHR ''/'' then match_tail r else None)
            else None) of
        Some (ver, nm) \<Rightarrow> Some (take (Suc i) s, ver, nm)
      | None \<Rightarrow> match_from i s)"

text \<open>\<^verbatim>\<open>URI_REGEX.match(s)\<close>: the groups (namespace, version, name), or \<open>None\<close>.\<close>

definition URI_REGEX_match :: "string \<Rightarrow> (string \<times> string \<times> string) option" where
  "URI_REGEX_match s = match_from (length s) s"

text \<open>The canonical string form \<^verbatim>\<open>{namespace}/{version}/{name}\<close>.\<close>

definition compose_uri :: "string \<Rightarrow> string \<Rightarrow> string \<Rightarrow> string" where
  "compose_uri ns ver nm = ns @ ''/'' @ ver @ ''/'' @ nm"

section \<open>Entity documents and their identity\<close>

text \<open>
  A document is a JSON object. \<open>properties\<close> and \<open>dimensions\<close> come in two dialects,
  told apart by their runtime shape only: a mapping from names to definitions (SOFT7) or a
  list of objects with an optional \<^verbatim>\<open>name\<close> (SOFT5). Any other value is \<open>OtherShape\<close>; a key
  that is missing from the object is \<open>None\<close>.
\<close>

datatype shape =
    MapShaped "(string \<times> string) list"
  | ListShaped "string option list"
  | OtherShape

record entity =
  uri :: "string option"
  namespace :: "string option"
  version :: "string option"
  name :: "string option"
  properties :: "shape option"
  dimensions :: "shape option"

text \<open>\<^verbatim>\<open>s.rstrip("/")\<close>\<close>

definition rstrip_slash :: "string \<Rightarrow> string" where
  "rstrip_slash s = rev (dropWhile (\<lambda>c. c = CHR ''/'') (rev s))"

text \<open>
  Modelled from the spec: \<^verbatim>\<open>get_uri\<close> of \<^verbatim>\<open>entities_service.service.utils\<close> is not among
  the sources. Spec 4.1, \<^verbatim>\<open>derive_identity\<close>: a document carries either a pre-composed
  \<^verbatim>\<open>uri\<close> or the triad namespace, version, name; the identity is the \<^verbatim>\<open>uri\<close>, or the triad
  composed after a trailing \<^verbatim>\<open>/\<close> of the namespace is stripped. The spec gives no identity
  to any other document: there the model returns \<open>None\<close>, and a caller stops with the
  exception \<open>NoIdentity\<close>.
\<close>

definition get_uri :: "entity \<Rightarrow> string option" where
  "get_uri e =
     (case uri e of
        Some u \<Rightarrow> Some u
      | None \<Rightarrow>
          (case (namespace e, version e, name e) of
             (Some ns, Some ver, Some nm) \<Rightarrow> Some (compose_uri (rstrip_slash ns) ver nm)
           | _ \<Rightarrow> None))"

definition has_uri :: "entity \<Rightarrow> bool" where
  "has_uri e = (get_uri e \<noteq> None)"

text \<open>The identity of a document that has one (callers check \<open>has_uri\<close> first).\<close>

definition the_uri :: "entity \<Rightarrow> string" where
  "the_uri e = (case get_uri e of Some u \<Rightarrow> u | None \<Rightarrow> [])"

section \<open>Exceptions, responses and the backend interface\<close>

text \<open>
  The Python exceptions that the backend and the bodies of the routes can raise, and what
  leaves a route: an \<^verbatim>\<open>HTTPException\<close> with its status code, or any other exception, that
  nothing catches.
\<close>

datatype py_exn =
    BackendWriteAccessError
  | MockBackendError
  | KeyError
  | IndexError
  | UnboundLocalError
  | NoIdentity

datatype exn = HTTPException nat | Raised py_exn

abbreviation HTTP_200_OK :: nat where "HTTP_200_OK \<equiv> 200"
abbreviation HTTP_201_CREATED :: nat where "HTTP_201_CREATED \<equiv> 201"
abbreviation HTTP_204_NO_CONTENT :: nat where "HTTP_204_NO_CONTENT \<equiv> 204"
abbreviation HTTP_400_BAD_REQUEST :: nat where "HTTP_400_BAD_REQUEST \<equiv> 400"
abbreviation HTTP_404_NOT_FOUND :: nat where "HTTP_404_NOT_FOUND \<equiv> 404"
abbreviation HTTP_502_BAD_GATEWAY :: nat where "HTTP_502_BAD_GATEWAY \<equiv> 502"

text \<open>
  What \<^verbatim>\<open>create\<close> hands back, and what the create and replace routes return:
  \<^verbatim>\<open>list[dict] | dict | None\<close>.
\<close>

datatype created = NoneValue | DictValue entity | ListValue "entity list"

fun is_list :: "created \<Rightarrow> bool" where
  "is_list (ListValue es) = True"
| "is_list c = False"

text \<open>A request body of type \<^verbatim>\<open>list[T] | T\<close>.\<close>

datatype 'a one_or_many = One 'a | Many "'a list"

text \<open>\<^verbatim>\<open>if isinstance(entities, list): ... else: entities = [entities]\<close>\<close>

fun as_list :: "'a one_or_many \<Rightarrow> 'a list" where
  "as_list (One e) = [e]"
| "as_list (Many es) = es"

text \<open>
  The backend the routes talk to, over a store of type \<open>'s\<close>. Every operation takes the
  store and returns the store it leaves behind, with the value returned or the exception
  raised. \<open>write_access_exception\<close> is the tuple of exception classes the routes catch.
  \<open>contains\<close> is \<^verbatim>\<open>identity in backend\<close>. The arguments of \<open>search\<close> are
  \<^verbatim>\<open>raw_query\<close>, \<^verbatim>\<open>by_properties\<close>, \<^verbatim>\<open>by_dimensions\<close>, \<^verbatim>\<open>by_identity\<close>.
\<close>

record 's backend =
  write_access_exception :: "py_exn \<Rightarrow> bool"
  contains :: "'s \<Rightarrow> string \<Rightarrow> bool"
  create :: "'s \<Rightarrow> entity list \<Rightarrow> 's \<times> (py_exn + created)"
  update :: "'s \<Rightarrow> string \<Rightarrow> entity \<Rightarrow> 's \<times> (py_exn + unit)"
  delete :: "'s \<Rightarrow> string list \<Rightarrow> 's \<times> (py_exn + unit)"
  search :: "'s \<Rightarrow> string option \<Rightarrow> string list option \<Rightarrow> string list option
               \<Rightarrow> string list option \<Rightarrow> py_exn + entity list"

text \<open>
  \<^verbatim>\<open>except entities_backend.write_access_exception as err: raise http_error from err\<close>:
  an exception of the caught classes becomes the route's own error, any other one
  propagates.
\<close>

definition reraise :: "'s backend \<Rightarrow> exn \<Rightarrow> py_exn \<Rightarrow> exn" where
  "reraise backend http_error err =
     (if write_access_exception backend err then http_error else Raised err)"

section \<open>The routes (entities\_service/service/routers/entities.py)\<close>

text \<open>
  Each route takes the backend and the store, and returns the store it leaves behind with
  either the exception raised or the pair of status code and body. The detail strings of
  the HTTP errors are left out. Building \<^verbatim>\<open>write_fail_exception\<close> calls \<^verbatim>\<open>get_uri\<close> on every
  entity of the batch before the backend is used; that is the \<open>has_uri\<close> check.
\<close>

definition get_entities ::
  "'s backend \<Rightarrow> 's \<Rightarrow> string list option \<Rightarrow> string list option \<Rightarrow> string list option
     \<Rightarrow> exn + (nat \<times> entity list)" where
  "get_entities backend s identities props dims =
     (case search backend s None props dims identities of
        Inl err \<Rightarrow> Inl (Raised err)
      | Inr entities \<Rightarrow>
          if entities \<noteq> [] then Inr (HTTP_200_OK, entities)
          else Inl (HTTPException HTTP_404_NOT_FOUND))"

text \<open>
  The arity check on what \<^verbatim>\<open>create\<close> returned:
  \<^verbatim>\<open>created_entities is None
    or (len(entities) == 1 and isinstance(created_entities, list))
    or (len(entities) > 1 and not isinstance(created_entities, list))\<close>
\<close>

definition arity_mismatch :: "entity list \<Rightarrow> created \<Rightarrow> bool" where
  "arity_mismatch entities created_entities =
     (created_entities = NoneValue
      \<or> (length entities = 1 \<and> is_list created_entities)
      \<or> (length entities > 1 \<and> \<not> is_list created_entities))"

definition create_entities ::
  "'s backend \<Rightarrow> 's \<Rightarrow> entity one_or_many \<Rightarrow> 's \<times> (exn + (nat \<times> created))" where
  "create_entities backend s entities_in =
     (if entities_in = Many [] then (s, Inr (HTTP_204_NO_CONTENT, NoneValue))
      else
        let entities = as_list entities_in;
            write_fail_exception = HTTPException HTTP_502_BAD_GATEWAY
        in if \<not> list_all has_uri entities then (s, Inl (Raised NoIdentity))
           else
             (case create backend s entities of
                (s', Inl err) \<Rightarrow> (s', Inl (reraise backend write_fail_exception err))
              | (s', Inr created_entities) \<Rightarrow>
                  if arity_mismatch entities created_entities
                  then (s', Inl write_fail_exception)
                  else (s', Inr (HTTP_201_CREATED, created_entities))))"

text \<open>
  The loop of \<^verbatim>\<open>update_entities\<close> over the whole batch:
  \<^verbatim>\<open>for entity in entities:
      if entity in new_entities: continue
      if get_uri(entity) in entities_backend:
          try: entities_backend.update(get_uri(entity), entity)
          except entities_backend.write_access_exception as err: raise write_fail_exception\<close>
\<close>

fun update_existing ::
  "'s backend \<Rightarrow> entity list \<Rightarrow> entity list \<Rightarrow> 's \<Rightarrow> 's \<times> (exn + unit)" where
  "update_existing backend new_entities [] s = (s, Inr ())"
| "update_existing backend new_entities (entity # rest) s =
     (if entity \<in> set new_entities then update_existing backend new_entities rest s
      else if contains backend s (the_uri entity) then
        (case update backend s (the_uri entity) entity of
           (s', Inl err) \<Rightarrow>
             (s', Inl (reraise backend (HTTPException HTTP_502_BAD_GATEWAY) err))
         | (s', Inr u) \<Rightarrow> update_existing backend new_entities rest s')
      else update_existing backend new_entities rest s)"

text \<open>
  In \<^verbatim>\<open>update_entities\<close> the local name \<^verbatim>\<open>created_entities\<close> is assigned only under
  \<^verbatim>\<open>if new_entities:\<close>, and the arity check that follows the \<^verbatim>\<open>if\<close> reads it in every
  case. The local is an option here: \<open>None\<close> is the unbound name, and reading it raises
  \<open>UnboundLocalError\<close>.
\<close>

definition update_entities ::
  "'s backend \<Rightarrow> 's \<Rightarrow> entity one_or_many \<Rightarrow> 's \<times> (exn + (nat \<times> created))" where
  "update_entities backend s entities_in =
     (if entities_in = Many [] then (s, Inr (HTTP_201_CREATED, NoneValue))
      else
        let entities = as_list entities_in;
            write_fail_exception = HTTPException HTTP_502_BAD_GATEWAY
        in if \<not> list_all has_uri entities then (s, Inl (Raised NoIdentity))
           else
             let new_entities = filter (\<lambda>entity. \<not> contains backend s (the_uri entity)) entities
             in (case (if new_entities \<noteq> []
                       then (case create backend s new_entities of
                               (s', Inl err) \<Rightarrow>
                                 (s', Inl (reraise backend write_fail_exception err))
                             | (s', Inr c) \<Rightarrow> (s', Inr (Some c)))
                       else (s, Inr None)) of
                   (s1, Inl err) \<Rightarrow> (s1, Inl err)
                 | (s1, Inr None) \<Rightarrow> (s1, Inl (Raised UnboundLocalError))
                 | (s1, Inr (Some created_entities)) \<Rightarrow>
                     if arity_mismatch new_entities created_entities
                     then (s1, Inl write_fail_exception)
                     else
                       (case update_existing backend new_entities entities s1 of
                          (s2, Inl err) \<Rightarrow> (s2, Inl err)
                        | (s2, Inr u) \<Rightarrow>
                            if new_entities \<noteq> []
                            then (s2, Inr (HTTP_201_CREATED, created_entities))
                            else (s2, Inr (HTTP_204_NO_CONTENT, NoneValue)))))"

text \<open>
  The loop of \<^verbatim>\<open>patch_entities\<close>:
  \<^verbatim>\<open>for entity in entities:
      try: entities_backend.update(get_uri(entity), entity)
      except entities_backend.write_access_exception as err: raise write_fail_exception\<close>
\<close>

fun patch_each :: "'s backend \<Rightarrow> entity list \<Rightarrow> 's \<Rightarrow> 's \<times> (exn + unit)" where
  "patch_each backend [] s = (s, Inr ())"
| "patch_each backend (entity # rest) s =
     (case update backend s (the_uri entity) entity of
        (s', Inl err) \<Rightarrow> (s', Inl (reraise backend (HTTPException HTTP_502_BAD_GATEWAY) err))
      | (s', Inr u) \<Rightarrow> patch_each backend rest s')"

definition patch_entities ::
  "'s backend \<Rightarrow> 's \<Rightarrow> entity one_or_many \<Rightarrow> 's \<times> (exn + (nat \<times> unit))" where
  "patch_entities backend s entities_in =
     (if entities_in = Many [] then (s, Inr (HTTP_204_NO_CONTENT, ()))
      else
        let entities = as_list entities_in;
            write_fail_exception = HTTPException HTTP_502_BAD_GATEWAY
        in if \<not> list_all has_uri entities then (s, Inl (Raised NoIdentity))
           else
             let non_existing_entities =
                   filter (\<lambda>entity. \<not> contains backend s (the_uri entity)) entities
             in if non_existing_entities \<noteq> [] then (s, Inl write_fail_exception)
                else
                  (case patch_each backend entities s of
                     (s', Inl err) \<Rightarrow> (s', Inl err)
                   | (s', Inr u) \<Rightarrow> (s', Inr (HTTP_204_NO_CONTENT, ()))))"

text \<open>
  A Python \<^verbatim>\<open>set\<close> of strings is a list without repetition, in insertion order; the order
  in which Python iterates over a set is not fixed, and nothing below depends on it.
  \<open>set_add\<close> is \<^verbatim>\<open>set.add\<close>, \<open>set_update\<close> is \<^verbatim>\<open>set.update\<close>.
\<close>

definition set_add :: "string list \<Rightarrow> string \<Rightarrow> string list" where
  "set_add xs x = (if x \<in> set xs then xs else xs @ [x])"

definition set_update :: "string list \<Rightarrow> string list \<Rightarrow> string list" where
  "set_update xs ys = foldl set_add xs ys"

text \<open>The body of the bulk delete: \<^verbatim>\<open>list[URIStrictType] | URIStrictType | None\<close>.\<close>

datatype identities_body = BodyNone | BodyStr string | BodyList "string list"

definition collect_identities :: "identities_body \<Rightarrow> string list option \<Rightarrow> string list" where
  "collect_identities body query =
     (let identities = (case body of
                          BodyStr i \<Rightarrow> set_add [] i
                        | BodyList is \<Rightarrow> set_update [] is
                        | BodyNone \<Rightarrow> [])
      in (case query of Some is \<Rightarrow> set_update identities is | None \<Rightarrow> identities))"

definition delete_entities ::
  "'s backend \<Rightarrow> 's \<Rightarrow> identities_body \<Rightarrow> string list option
     \<Rightarrow> 's \<times> (exn + (nat \<times> string list))" where
  "delete_entities backend s identities_body identities_query =
     (let identities = collect_identities identities_body identities_query
      in if identities = [] then (s, Inl (HTTPException HTTP_400_BAD_REQUEST))
         else
           (case delete backend s identities of
              (s', Inl err) \<Rightarrow>
                (s', Inl (reraise backend (HTTPException HTTP_502_BAD_GATEWAY) err))
            | (s', Inr u) \<Rightarrow> (s', Inr (HTTP_200_OK, sort identities))))"

definition update_entity ::
  "'s backend \<Rightarrow> 's \<Rightarrow> string \<Rightarrow> entity \<Rightarrow> 's \<times> (exn + (nat \<times> entity option))" where
  "update_entity backend s identity entity =
     (case get_uri entity of
        None \<Rightarrow> (s, Inl (Raised NoIdentity))
      | Some u \<Rightarrow>
          if identity \<noteq> u then (s, Inl (HTTPException HTTP_400_BAD_REQUEST))
          else if \<not> contains backend s identity then
            (case create backend s [entity] of
               (s', Inl err) \<Rightarrow>
                 (s', Inl (reraise backend (HTTPException HTTP_502_BAD_GATEWAY) err))
             | (s', Inr c) \<Rightarrow> (s', Inr (HTTP_201_CREATED, Some entity)))
          else
            (case update backend s identity entity of
               (s', Inl err) \<Rightarrow>
                 (s', Inl (reraise backend (HTTPException HTTP_502_BAD_GATEWAY) err))
             | (s', Inr r) \<Rightarrow> (s', Inr (HTTP_204_NO_CONTENT, None))))"





section \<open>The mock backend (tests/service/routers/conftest.py)\<close>

text \<open>
  \<^verbatim>\<open>MockBackend\<close> keeps two parallel lists: the documents and their identities.
\<close>

record mock =
  test_data :: "entity list"
  test_data_uris :: "string list"

text \<open>
  \<^verbatim>\<open>xs.index(x)\<close> guarded by \<^verbatim>\<open>x in xs\<close>: the first position of \<open>x\<close>, or \<open>None\<close> when
  \<open>x\<close> is not in the list.
\<close>

fun index_of :: "'a list \<Rightarrow> 'a \<Rightarrow> nat option" where
  "index_of [] x = None"
| "index_of (y # ys) x = (if y = x then Some 0 else map_option Suc (index_of ys x))"

text \<open>\<^verbatim>\<open>xs.pop(i)\<close> for \<open>i\<close> in range: the list without its element at \<open>i\<close>.\<close>

definition pop_at :: "'a list \<Rightarrow> nat \<Rightarrow> 'a list" where
  "pop_at xs i = take i xs @ drop (Suc i) xs"

text \<open>
  \<^verbatim>\<open>_prepare_entity\<close> is inherited from \<^verbatim>\<open>MongoDBBackend\<close>, which is not among the sources;
  it is the parameter \<open>prepare\<close> of \<open>mock_create\<close> and \<open>mock_update\<close>.
\<close>

definition mock_create ::
  "(entity \<Rightarrow> entity) \<Rightarrow> mock \<Rightarrow> entity list \<Rightarrow> mock \<times> (py_exn + created)" where
  "mock_create prepare s entities_in =
     (let entities = map prepare entities_in
      in if \<not> list_all has_uri entities then (s, Inl NoIdentity)
         else
           let entity_identities = map the_uri entities
           in (case entities of
                 [] \<Rightarrow> (s, Inr NoneValue)
               | e # rest \<Rightarrow>
                   let s' = s\<lparr>test_data := test_data s @ entities,
                              test_data_uris := test_data_uris s @ entity_identities\<rparr>
                   in if length entities > 1 then (s', Inr (ListValue entities))
                      else (s', Inr (DictValue e))))"

definition mock_read :: "mock \<Rightarrow> string \<Rightarrow> py_exn + entity option" where
  "mock_read s entity_identity =
     (case index_of (test_data_uris s) entity_identity of
        None \<Rightarrow> Inr None
      | Some i \<Rightarrow>
          if i < length (test_data s) then Inr (Some (test_data s ! i)) else Inl IndexError)"

definition mock_update ::
  "(entity \<Rightarrow> entity) \<Rightarrow> mock \<Rightarrow> string \<Rightarrow> entity \<Rightarrow> mock \<times> (py_exn + unit)" where
  "mock_update prepare s entity_identity entity_in =
     (if URI_REGEX_match entity_identity = None then (s, Inl MockBackendError)
      else
        let entity = prepare entity_in
        in (case index_of (test_data_uris s) entity_identity of
              None \<Rightarrow> (s, Inr ())
            | Some i \<Rightarrow>
                if i < length (test_data s)
                then (s\<lparr>test_data := (test_data s)[i := entity]\<rparr>, Inr ())
                else (s, Inl IndexError)))"

text \<open>
  The loop of \<^verbatim>\<open>delete\<close>:
  \<^verbatim>\<open>for identity in entity_identities:
      if identity in self.__test_data_uris:
          self.__test_data.pop(self.__test_data_uris.index(identity))
          self.__test_data_uris.remove(identity)\<close>
\<close>

fun delete_each :: "string list \<Rightarrow> mock \<Rightarrow> mock \<times> (py_exn + unit)" where
  "delete_each [] s = (s, Inr ())"
| "delete_each (identity # rest) s =
     (case index_of (test_data_uris s) identity of
        None \<Rightarrow> delete_each rest s
      | Some i \<Rightarrow>
          if i < length (test_data s)
          then delete_each rest
                 (s\<lparr>test_data := pop_at (test_data s) i,
                    test_data_uris := remove1 identity (test_data_uris s)\<rparr>)
          else (s, Inl IndexError))"

definition mock_delete :: "mock \<Rightarrow> string list \<Rightarrow> mock \<times> (py_exn + unit)" where
  "mock_delete s entity_identities =
     (if list_ex (\<lambda>identity. URI_REGEX_match identity = None) entity_identities
      then (s, Inl MockBackendError)
      else delete_each entity_identities s)"

text \<open>
  Whether one document matches the requested names, on its \<^verbatim>\<open>properties\<close> or on its
  \<^verbatim>\<open>dimensions\<close> (\<open>field\<close> is the value under that key, \<open>None\<close> when the key is missing):
  \<^verbatim>\<open>if isinstance(entity.get("properties", {}), dict):
      if any(prop in entity["properties"] for prop in by_properties): results.append(entity)
  elif isinstance(entity.get("properties", []), list):
      if any(requested_prop in (prop.get("name") for prop in entity["properties"])
             for requested_prop in by_properties): results.append(entity)
  else:
      raise MockBackendError("Invalid entity properties.")\<close>
  With the key missing the default \<^verbatim>\<open>{}\<close> is a dict, and \<^verbatim>\<open>entity["properties"]\<close> then
  raises \<^verbatim>\<open>KeyError\<close>, the requested names being non-empty.
\<close>

fun field_matches :: "string list \<Rightarrow> shape option \<Rightarrow> py_exn + bool" where
  "field_matches requested None = Inl KeyError"
| "field_matches requested (Some (MapShaped kvs)) =
     Inr (list_ex (\<lambda>p. p \<in> set (map fst kvs)) requested)"
| "field_matches requested (Some (ListShaped names)) =
     Inr (list_ex (\<lambda>p. Some p \<in> set names) requested)"
| "field_matches requested (Some OtherShape) = Inl MockBackendError"

text \<open>One pass over the documents for one of the two fields, appending to \<open>results\<close>.\<close>

fun search_field ::
  "(entity \<Rightarrow> shape option) \<Rightarrow> string list \<Rightarrow> entity list \<Rightarrow> entity list
     \<Rightarrow> py_exn + entity list" where
  "search_field field requested [] results = Inr results"
| "search_field field requested (entity # rest) results =
     (case field_matches requested (field entity) of
        Inl err \<Rightarrow> Inl err
      | Inr hit \<Rightarrow>
          search_field field requested rest (if hit then results @ [entity] else results))"

text \<open>
  The pass over the requested identities:
  \<^verbatim>\<open>for identity in by_identity:
      if identity in self.__test_data_uris:
          results.append(self._test_data[self.__test_data_uris.index(identity)])\<close>
\<close>

fun search_identity :: "mock \<Rightarrow> string list \<Rightarrow> entity list \<Rightarrow> py_exn + entity list" where
  "search_identity s [] results = Inr results"
| "search_identity s (identity # rest) results =
     (case index_of (test_data_uris s) identity of
        None \<Rightarrow> search_identity s rest results
      | Some i \<Rightarrow>
          if i < length (test_data s)
          then search_identity s rest (results @ [test_data s ! i])
          else Inl IndexError)"

text \<open>\<^verbatim>\<open>if by_properties:\<close> holds for a list that is neither \<^verbatim>\<open>None\<close> nor empty.\<close>

fun truthy :: "'a list option \<Rightarrow> bool" where
  "truthy None = False"
| "truthy (Some xs) = (xs \<noteq> [])"

fun listed :: "'a list option \<Rightarrow> 'a list" where
  "listed None = []"
| "listed (Some xs) = xs"

definition mock_search ::
  "mock \<Rightarrow> string option \<Rightarrow> string list option \<Rightarrow> string list option \<Rightarrow> string list option
     \<Rightarrow> py_exn + entity list" where
  "mock_search s raw_query by_properties by_dimensions by_identity =
     (if raw_query \<noteq> None then Inl MockBackendError
      else
        (case (if truthy by_properties
               then search_field properties (listed by_properties) (test_data s) []
               else Inr []) of
           Inl err \<Rightarrow> Inl err
         | Inr results1 \<Rightarrow>
             (case (if truthy by_dimensions
                    then search_field dimensions (listed by_dimensions) (test_data s) results1
                    else Inr results1) of
                Inl err \<Rightarrow> Inl err
              | Inr results2 \<Rightarrow>
                  if truthy by_identity
                  then search_identity s (listed by_identity) results2
                  else Inr results2)))"

text \<open>
  Modelled from the spec: \<^verbatim>\<open>__contains__\<close> is inherited from the backend base class, which
  is not among the sources. Spec 4.2, \<^verbatim>\<open>contains(identity) -> bool\<close>, with the exact
  canonical-string equality of 4.3: the identity is one of the store's keys.
\<close>

definition mock_contains :: "mock \<Rightarrow> string \<Rightarrow> bool" where
  "mock_contains s identity = (identity \<in> set (test_data_uris s))"

text \<open>\<^verbatim>\<open>MockBackendWriteAccessError = (MockBackendError, BackendWriteAccessError)\<close>\<close>

definition MockBackend :: "(entity \<Rightarrow> entity) \<Rightarrow> mock backend" where
  "MockBackend prepare =
     \<lparr>write_access_exception = (\<lambda>err. err = MockBackendError \<or> err = BackendWriteAccessError),
      contains = mock_contains,
      create = mock_create prepare,
      update = mock_update prepare,
      delete = mock_delete,
      search = mock_search\<rparr>"

text \<open>
  \<^verbatim>\<open>MockBackend.__init__\<close>: the store over the fixture's documents, each of which has an
  identity.
\<close>

definition mock_init :: "entity list \<Rightarrow> mock" where
  "mock_init backend_test_data =
     \<lparr>test_data = backend_test_data, test_data_uris = map the_uri backend_test_data\<rparr>"

text \<open>
  Documents of the two dialects, for concrete runs; \<open>Box_new\<close> is a new version of the
  document \<open>Box_doc\<close>, under the same identity.
\<close>

definition Box_doc :: entity where
  "Box_doc = \<lparr>uri = None, namespace = Some ''http://x.org'', version = Some ''0.1'',
          name = Some ''Box'',
          properties = Some (MapShaped [(''length'', ''float'')]),
          dimensions = Some (MapShaped [])\<rparr>"

definition Box_new :: entity where
  "Box_new = Box_doc\<lparr>properties := Some (MapShaped [(''width'', ''float'')])\<rparr>"

definition Ball_doc :: entity where
  "Ball_doc = \<lparr>uri = Some ''http://x.org/0.1/Ball'', namespace = None, version = None,
           name = None,
           properties = Some (ListShaped [Some ''radius'']),
           dimensions = Some (ListShaped [Some ''n''])\<rparr>"

section \<open>Notions used to state the properties\<close>

text \<open>The identities handed to the bulk delete, from the body and from the query.\<close>

fun body_list :: "identities_body \<Rightarrow> string list" where
  "body_list BodyNone = []"
| "body_list (BodyStr i) = [i]"
| "body_list (BodyList is) = is"

definition supplied :: "identities_body \<Rightarrow> string list option \<Rightarrow> string set" where
  "supplied body query = set (body_list body) \<union> set (listed query)"



text \<open>A backend whose \<^verbatim>\<open>create\<close> stores nothing and returns \<^verbatim>\<open>None\<close>, for concrete runs.\<close>

definition NoneBackend :: "mock backend" where
  "NoneBackend = (MockBackend id)\<lparr>create := (\<lambda>s entities. (s, Inr NoneValue))\<rparr>"

section \<open>Properties of the URI grammar\<close>

lemma match_tail_compose:
  "match_tail r = Some (ver, nm) \<Longrightarrow> r = ver @ ''/'' @ nm"
proof -
  assume m: "match_tail r = Some (ver, nm)"
  let ?P = "\<lambda>c. c \<noteq> CHR ''/''"
  from m obtain s where d: "dropWhile ?P r = s # nm" and v: "ver = takeWhile ?P r"
    by (auto simp: match_tail_def Let_def split: list.splits if_splits)
  from d have "s = CHR ''/''"
    using hd_dropWhile [of ?P r] by auto
  with d v takeWhile_dropWhile_id [of ?P r] show ?thesis by simp
qed

lemma match_from_compose:
  "match_from i s = Some (ns, ver, nm) \<Longrightarrow> s = compose_uri ns ver nm"
proof (induction i)
  case 0
  then show ?case by simp
next
  case (Suc i)
  show ?case
  proof (cases "match_from i s = Some (ns, ver, nm)")
    case True
    with Suc.IH show ?thesis by simp
  next
    case False
    with Suc.prems obtain r where
      ns: "ns = take (Suc i) s" and d: "drop (Suc i) s = CHR ''/'' # r"
      and t: "match_tail r = Some (ver, nm)"
      by (auto split: option.splits if_splits list.splits)
    from t have "r = ver @ ''/'' @ nm" by (rule match_tail_compose)
    with ns d append_take_drop_id [of "Suc i" s] show ?thesis
      by (simp add: compose_uri_def)
  qed
qed

lemma slash_not_digit: "\<not> is_digit CHR ''/''"
  by (simp add: is_digit_def less_eq_char_def)

lemma version_groups_chars:
  "version_groups n r \<Longrightarrow> c \<in> set r \<Longrightarrow> c = CHR ''.'' \<or> is_digit c"
proof (induction n r rule: version_groups.induct)
  case (3 n d cs)
  from "3.prems"(1) have d: "d = CHR ''.''" and g: "version_groups n (dropWhile is_digit cs)"
    by simp_all
  from "3.prems"(2) consider "c = d" | "c \<in> set (takeWhile is_digit cs)"
    | "c \<in> set (dropWhile is_digit cs)"
    using takeWhile_dropWhile_id [of is_digit cs] by (metis set_ConsD set_append Un_iff)
  then show ?case
  proof cases
    case 1
    with d show ?thesis by simp
  next
    case 2
    then show ?thesis by (auto dest: set_takeWhileD)
  next
    case 3
    with "3.IH" g show ?thesis by simp
  qed
qed simp_all

lemma version_no_slash: "is_version v \<Longrightarrow> CHR ''/'' \<notin> set v"
proof
  assume v: "is_version v" and s: "CHR ''/'' \<in> set v"
  from v obtain d r where vr: "v = d # r" and d: "is_digit d" and g: "version_groups 2 r"
    by (auto simp: is_version_def split: list.splits)
  from s vr d slash_not_digit have "CHR ''/'' \<in> set r" by auto
  from version_groups_chars [OF g this] slash_not_digit show False by simp
qed

lemma name_no_slash: "is_name n \<Longrightarrow> CHR ''/'' \<notin> set n"
  by (auto simp: is_name_def list_all_iff)

lemma match_tail_no_slash: "CHR ''/'' \<notin> set n \<Longrightarrow> match_tail n = None"
proof -
  assume "CHR ''/'' \<notin> set n"
  then have "dropWhile (\<lambda>c. c \<noteq> CHR ''/'') n = []" by (auto simp: dropWhile_eq_Nil_conv)
  then show ?thesis unfolding match_tail_def by (simp only: list.case)
qed

lemma match_tail_complete:
  assumes "is_version v" and "is_name n"
  shows "match_tail (v @ ''/'' @ n) = Some (v, n)"
proof -
  let ?P = "\<lambda>c. c \<noteq> CHR ''/''"
  from version_no_slash [OF assms(1)] have a: "\<And>x. x \<in> set v \<Longrightarrow> ?P x" by auto
  have t: "takeWhile ?P (v @ CHR ''/'' # n) = v" 
    using a by simp
  have d: "dropWhile ?P (v @ CHR ''/'' # n) = CHR ''/'' # n"
    using a by simp
  from t d assms show ?thesis by (simp add: match_tail_def)
qed

lemma later_split_fails:
  assumes "CHR ''/'' \<notin> set v" and "CHR ''/'' \<notin> set n"
  shows "(case drop j (v @ CHR ''/'' # n) of
            [] \<Rightarrow> None
          | c # r \<Rightarrow> if c = CHR ''/'' then match_tail r else None) = None"
proof (cases "drop j (v @ CHR ''/'' # n)")
  case Nil
  then show ?thesis by simp
next
  case (Cons c r)
  show ?thesis
  proof (cases "c = CHR ''/''")
    case False
    with Cons show ?thesis by simp
  next
    case True
    have "r = n"
    proof -
      consider "j < length v" | "j = length v" | "j > length v" by linarith
      then show ?thesis
      proof cases
        case 1
        then have "drop j (v @ CHR ''/'' # n) = drop j v @ CHR ''/'' # n" by simp
        moreover from 1 have "drop j v \<noteq> []" by simp
        ultimately have "c \<in> set (drop j v)" using Cons by (cases "drop j v") auto
        then have "c \<in> set v" by (rule in_set_dropD)
        with True assms(1) show ?thesis by simp
      next
        case 2
        with Cons show ?thesis by simp
      next
        case 3
        then have "drop j (v @ CHR ''/'' # n) = drop (j - Suc (length v)) n"
          by (simp add: drop_Cons')
        with Cons have "drop (j - Suc (length v)) n = c # r" by simp
        then have "c \<in> set (drop (j - Suc (length v)) n)" by simp
        then have "c \<in> set n" by (rule in_set_dropD)
        with True assms(2) show ?thesis by simp
      qed
    qed
    with Cons True match_tail_no_slash [OF assms(2)] show ?thesis by simp
  qed
qed

lemma match_from_complete:
  assumes ns: "is_namespace ns" and v: "is_version v" and n: "is_name n"
  shows "length ns \<le> i \<Longrightarrow> match_from i (compose_uri ns v n) = Some (ns, v, n)"
proof (induction i)
  case 0
  with ns show ?case by (simp add: is_namespace_def is_any1_def)
next
  case (Suc i)
  let ?s = "compose_uri ns v n"
  show ?case
  proof (cases "Suc i = length ns")
    case True
    then have t: "take (Suc i) ?s = ns" and d: "drop (Suc i) ?s = CHR ''/'' # (v @ ''/'' @ n)"
      by (simp_all add: compose_uri_def)
    from t d ns match_tail_complete [OF v n] show ?thesis by simp
  next
    case False
    with Suc.prems have le: "length ns \<le> i" by simp
    then have d: "drop (Suc i) ?s = drop (i - length ns) (v @ CHR ''/'' # n)"
      by (simp add: compose_uri_def drop_Cons' Suc_diff_le)
    have "(case drop (Suc i) ?s of
            [] \<Rightarrow> None
          | c # r \<Rightarrow> if c = CHR ''/'' then match_tail r else None) = None"
      unfolding d by (rule later_split_fails [OF version_no_slash [OF v] name_no_slash [OF n]])
    then have "match_from (Suc i) ?s = match_from i ?s" by simp
    with Suc.IH [OF le] show ?thesis by simp
  qed
qed

lemma match_from_parts:
  "match_from i s = Some (ns, ver, nm) \<Longrightarrow> is_namespace ns \<and> is_version ver \<and> is_name nm"
proof (induction i)
  case 0
  then show ?case by simp
next
  case (Suc i)
  show ?case
  proof (cases "match_from i s = Some (ns, ver, nm)")
    case True
    with Suc.IH show ?thesis by simp
  next
    case False
    with Suc.prems obtain r where "is_namespace ns" and "match_tail r = Some (ver, nm)"
      by (auto split: option.splits if_splits list.splits)
    then show ?thesis
      by (auto simp: match_tail_def Let_def split: list.splits if_splits)
  qed
qed

text \<open>The matcher accepts exactly the strings of the grammar, with the groups as parsed.\<close>

lemma URI_REGEX_match_iff:
  "URI_REGEX_match s = Some (ns, ver, nm) \<longleftrightarrow>
     s = compose_uri ns ver nm \<and> is_namespace ns \<and> is_version ver \<and> is_name nm"
proof
  assume "URI_REGEX_match s = Some (ns, ver, nm)"
  then show "s = compose_uri ns ver nm \<and> is_namespace ns \<and> is_version ver \<and> is_name nm"
    unfolding URI_REGEX_match_def
    using match_from_compose match_from_parts by blast
next
  assume a: "s = compose_uri ns ver nm \<and> is_namespace ns \<and> is_version ver \<and> is_name nm"
  then have "length ns \<le> length s" by (simp add: compose_uri_def)
  with a match_from_complete [of ns ver nm "length s"] show "URI_REGEX_match s = Some (ns, ver, nm)"
    by (simp add: URI_REGEX_match_def)
qed



section \<open>Replace: a batch without new entities\<close>

lemma filter_new_empty:
  "list_all (\<lambda>e. contains backend s (the_uri e)) es \<Longrightarrow>
     filter (\<lambda>entity. \<not> contains backend s (the_uri entity)) es = []"
  by (simp add: list_all_iff filter_empty_conv)

lemma filter_new_nonempty:
  "list_ex (\<lambda>e. \<not> contains backend s (the_uri e)) es \<Longrightarrow>
     filter (\<lambda>entity. \<not> contains backend s (the_uri entity)) es \<noteq> []"
  by (simp add: list_ex_iff filter_empty_conv)

lemma as_list_nonempty: "as_list entities_in \<noteq> [] \<Longrightarrow> entities_in \<noteq> Many []"
  by auto

text \<open>
  Whatever the backend, a non-empty replace batch all of whose identities are in the store
  stops at the arity check, which reads the local that only the create branch assigns; no
  entity is updated.
\<close>

lemma update_entities_no_new:
  assumes "as_list entities_in \<noteq> []"
    and "list_all has_uri (as_list entities_in)"
    and "list_all (\<lambda>e. contains backend s (the_uri e)) (as_list entities_in)"
  shows "update_entities backend s entities_in = (s, Inl (Raised UnboundLocalError))"
  using assms(2) as_list_nonempty [OF assms(1)] filter_new_empty [OF assms(3)]
  by (simp add: update_entities_def Let_def)

text \<open>
  C1. A replace batch in which every identity is already stored should update each entity
  and report "no content" (204). On the store that holds \<open>Box_doc\<close>, the batch of the one
  document \<open>Box_new\<close>, which has the identity of \<open>Box_doc\<close> and another property, ends in
  \<^verbatim>\<open>UnboundLocalError\<close> instead, and the store still holds \<open>Box_doc\<close>.
\<close>

theorem update_entities_existing_unbound:
  "get_uri Box_new = get_uri Box_doc
   \<and> mock_contains (mock_init [Box_doc]) (the_uri Box_new)
   \<and> update_entities (MockBackend id) (mock_init [Box_doc]) (Many [Box_new])
       = (mock_init [Box_doc], Inl (Raised UnboundLocalError))"
  by code_simp

section \<open>Patch: identities that are not in the store\<close>




text \<open>
  C5. A patch batch with at least one target that is not in the store is rejected by the
  existence check that comes first: the store that the route leaves behind is the store it
  was given, for every backend and so whatever \<^verbatim>\<open>update\<close> would have done; the
  documents of the other identities are unchanged.
\<close>

theorem patch_entities_preflight:
  assumes "list_all has_uri (as_list entities_in)"
    and "list_ex (\<lambda>entity. \<not> contains backend s (the_uri entity)) (as_list entities_in)"
  shows "fst (patch_entities backend s entities_in) = s
         \<and> (\<exists>err. snd (patch_entities backend s entities_in) = Inl err)"
proof -
  from assms(2) have ne: "entities_in \<noteq> Many []" by auto
  with assms(1) filter_new_nonempty [OF assms(2)] show ?thesis
    by (simp add: patch_entities_def Let_def)
qed

theorem patch_entities_preflight_witness:
  "list_all has_uri [Box_doc, Ball_doc]
   \<and> list_ex (\<lambda>entity. \<not> contains (MockBackend id) (mock_init [Box_doc]) (the_uri entity)) [Box_doc, Ball_doc]
   \<and> fst (patch_entities (MockBackend id) (mock_init [Box_doc]) (Many [Box_doc, Ball_doc])) = mock_init [Box_doc]
   \<and> (\<exists>err. snd (patch_entities (MockBackend id) (mock_init [Box_doc]) (Many [Box_doc, Ball_doc])) = Inl err)
   \<and> mock_read (mock_init [Box_doc]) ''http://x.org/0.1/Box'' = Inr (Some Box_doc)"
proof -
  have h1: "list_all has_uri [Box_doc, Ball_doc]"
    by code_simp
  have h2: "list_ex (\<lambda>entity. \<not> contains (MockBackend id) (mock_init [Box_doc]) (the_uri entity))
              [Box_doc, Ball_doc]"
    by code_simp
  have h3: "mock_read (mock_init [Box_doc]) ''http://x.org/0.1/Box'' = Inr (Some Box_doc)"
    by code_simp
  show ?thesis
    using h1 h2 h3
      patch_entities_preflight [of "Many [Box_doc, Ball_doc]" "MockBackend id" "mock_init [Box_doc]"]
    by simp
qed

section \<open>Delete: identities that are not in the store\<close>


lemma index_of_Some: "index_of xs x = Some i \<Longrightarrow> i < length xs \<and> xs ! i = x"
  by (induction xs arbitrary: i) (auto split: if_splits)




section \<open>Create: the arity check\<close>

text \<open>
  C4. For a non-empty create batch and a value returned by the store's \<^verbatim>\<open>create\<close>: when
  the value is absent, or is a sequence although exactly one entity was sent, or is not a
  sequence although more than one was sent, the route fails with the one write failure of
  the batch (502); otherwise it returns that value, with status 201.
\<close>

theorem create_entities_arity:
  assumes "as_list entities_in \<noteq> []"
    and "list_all has_uri (as_list entities_in)"
    and "create backend s (as_list entities_in) = (s', Inr c)"
  shows "create_entities backend s entities_in =
           (if c = NoneValue
               \<or> (length (as_list entities_in) = 1 \<and> (\<exists>es. c = ListValue es))
               \<or> (length (as_list entities_in) > 1 \<and> (\<forall>es. c \<noteq> ListValue es))
            then (s', Inl (HTTPException HTTP_502_BAD_GATEWAY))
            else (s', Inr (HTTP_201_CREATED, c)))"
proof -
  have l: "is_list c = (\<exists>es. c = ListValue es)" by (cases c) simp_all
  from assms(1) have ne: "entities_in \<noteq> Many []" by auto
  show ?thesis
    using assms(2,3) ne l by (simp add: create_entities_def arity_mismatch_def Let_def)
qed

theorem create_entities_arity_witness:
  "as_list (Many [Box_doc, Ball_doc]) \<noteq> []
   \<and> list_all has_uri (as_list (Many [Box_doc, Ball_doc]))
   \<and> create (MockBackend id) (mock_init []) (as_list (Many [Box_doc, Ball_doc]))
       = (mock_init [Box_doc, Ball_doc], Inr (ListValue [Box_doc, Ball_doc]))
   \<and> create_entities (MockBackend id) (mock_init []) (Many [Box_doc, Ball_doc])
       = (mock_init [Box_doc, Ball_doc], Inr (HTTP_201_CREATED, ListValue [Box_doc, Ball_doc]))
   \<and> create NoneBackend (mock_init []) (as_list (Many [Box_doc, Ball_doc]))
       = (mock_init [], Inr NoneValue)
   \<and> create_entities NoneBackend (mock_init []) (Many [Box_doc, Ball_doc])
       = (mock_init [], Inl (HTTPException HTTP_502_BAD_GATEWAY))"
proof -
  have h1: "as_list (Many [Box_doc, Ball_doc]) \<noteq> []"
    by simp
  have h2: "list_all has_uri (as_list (Many [Box_doc, Ball_doc]))"
    by code_simp
  have h3: "create (MockBackend id) (mock_init []) (as_list (Many [Box_doc, Ball_doc]))
              = (mock_init [Box_doc, Ball_doc], Inr (ListValue [Box_doc, Ball_doc]))"
    by code_simp
  have h4: "create NoneBackend (mock_init []) (as_list (Many [Box_doc, Ball_doc]))
              = (mock_init [], Inr NoneValue)"
    by (simp add: NoneBackend_def)
  show ?thesis
    using h1 h2 h3 h4 create_entities_arity [OF h1 h2 h3] create_entities_arity [OF h1 h2 h4]
    by simp
qed

section \<open>Single-entity replace: the identity check\<close>

text \<open>
  C7. When the identity of the path differs from the identity derived from the document,
  the single-entity replace fails with a client error (400) and the store is the one it was
  given, for every backend; when the two are equal, the route does not end in that error.
\<close>

theorem update_entity_identity_mismatch:
  "(get_uri entity = Some u \<and> u \<noteq> identity \<longrightarrow>
      update_entity backend s identity entity = (s, Inl (HTTPException HTTP_400_BAD_REQUEST)))
   \<and> (get_uri entity = Some identity \<longrightarrow>
      snd (update_entity backend s identity entity) \<noteq> Inl (HTTPException HTTP_400_BAD_REQUEST))"
  by (auto simp: update_entity_def reraise_def split: prod.splits sum.splits)

theorem update_entity_identity_mismatch_witness:
  "get_uri Box_doc = Some ''http://x.org/0.1/Box''
   \<and> ''http://x.org/0.1/Box'' \<noteq> ''http://x.org/0.1/Ball''
   \<and> update_entity (MockBackend id) (mock_init [Box_doc]) ''http://x.org/0.1/Ball'' Box_doc
       = (mock_init [Box_doc], Inl (HTTPException HTTP_400_BAD_REQUEST))
   \<and> snd (update_entity (MockBackend id) (mock_init [Box_doc]) ''http://x.org/0.1/Box'' Box_doc)
       \<noteq> Inl (HTTPException HTTP_400_BAD_REQUEST)
   \<and> update_entity (MockBackend id) (mock_init [Box_doc]) ''http://x.org/0.1/Box'' Box_doc
       = (mock_init [Box_doc], Inr (HTTP_204_NO_CONTENT, None))"
proof -
  have h1: "get_uri Box_doc = Some ''http://x.org/0.1/Box''"
    by code_simp
  have h2: "''http://x.org/0.1/Box'' \<noteq> ''http://x.org/0.1/Ball''"
    by simp
  have h3: "update_entity (MockBackend id) (mock_init [Box_doc]) ''http://x.org/0.1/Box'' Box_doc
       = (mock_init [Box_doc], Inr (HTTP_204_NO_CONTENT, None))"
    by code_simp
  show ?thesis
    using h1 h2 h3
      update_entity_identity_mismatch [of Box_doc "''http://x.org/0.1/Box''"
        "''http://x.org/0.1/Ball''" "MockBackend id" "mock_init [Box_doc]"]
      update_entity_identity_mismatch [of Box_doc "''http://x.org/0.1/Box''"
        "''http://x.org/0.1/Box''" "MockBackend id" "mock_init [Box_doc]"]
    by simp
qed

section \<open>Retrieval of several entities\<close>

text \<open>
  C10. The multi-entity retrieval never returns an empty list: when the search of the
  backend yields no document the route fails with NotFound (404), and a list that it
  returns is not empty. On the mock backend this includes the empty store searched without
  any filter.
\<close>

theorem get_entities_never_empty:
  "(search backend s None props dims identities = Inr [] \<longrightarrow>
      get_entities backend s identities props dims = Inl (HTTPException HTTP_404_NOT_FOUND))
   \<and> (get_entities backend s identities props dims = Inr (st, rs) \<longrightarrow> rs \<noteq> [])"
  by (auto simp: get_entities_def split: sum.splits if_splits)

theorem get_entities_never_empty_witness:
  "search (MockBackend id) (mock_init []) None None None None = Inr []
   \<and> get_entities (MockBackend id) (mock_init []) None None None
       = Inl (HTTPException HTTP_404_NOT_FOUND)
   \<and> get_entities (MockBackend id) (mock_init [Box_doc, Ball_doc]) None (Some [''radius'']) None
       = Inr (HTTP_200_OK, [Ball_doc])
   \<and> [Ball_doc] \<noteq> []"
proof -
  have h1: "search (MockBackend id) (mock_init []) None None None None = Inr []"
    by code_simp
  have h2: "get_entities (MockBackend id) (mock_init [Box_doc, Ball_doc]) None (Some [''radius'']) None
       = Inr (HTTP_200_OK, [Ball_doc])"
    by code_simp
  show ?thesis
    using h1 h2
      get_entities_never_empty [of "MockBackend id" "mock_init []" None None None]
      get_entities_never_empty [of "MockBackend id" "mock_init [Box_doc, Ball_doc]" "Some [''radius'']"
        None None HTTP_200_OK "[Ball_doc]"]
    by simp
qed

section \<open>Bulk delete: the identities returned\<close>

lemma set_set_add: "set (set_add xs x) = insert x (set xs)"
  by (auto simp: set_add_def)

lemma distinct_set_add: "distinct xs \<Longrightarrow> distinct (set_add xs x)"
  by (simp add: set_add_def)

lemma set_set_update: "set (set_update xs ys) = set xs \<union> set ys"
  unfolding set_update_def by (induction ys arbitrary: xs) (simp_all add: set_set_add)

lemma distinct_set_update: "distinct xs \<Longrightarrow> distinct (set_update xs ys)"
  unfolding set_update_def by (induction ys arbitrary: xs) (simp_all add: distinct_set_add)

lemma set_collect_identities: "set (collect_identities body query) = supplied body query"
  by (cases body; cases query)
     (auto simp: collect_identities_def supplied_def set_set_update set_set_add)

lemma distinct_collect_identities: "distinct (collect_identities body query)"
  by (cases body; cases query)
     (simp_all add: collect_identities_def distinct_set_update distinct_set_add)

lemma sort_collect_identities:
  "sort (collect_identities body query) = sorted_list_of_set (supplied body query)"
  using distinct_collect_identities [of body query] set_collect_identities [of body query]
  by (metis sorted_list_of_set_sort_remdups distinct_remdups_id)

text \<open>
  C8. A bulk delete that succeeds returns exactly the set of the identities supplied in
  the body and the query, each once, in ascending lexicographic order of the strings. An
  empty set of identities is rejected with a client error (400, not the 502 of a write
  failure), and the store is the one the route was given, for every backend.
\<close>

theorem delete_entities_sorted:
  "(supplied body query = {} \<longrightarrow>
      delete_entities backend s body query = (s, Inl (HTTPException HTTP_400_BAD_REQUEST)))
   \<and> (delete_entities backend s body query = (s', Inr (st, out)) \<longrightarrow>
        supplied body query \<noteq> {} \<and> out = sorted_list_of_set (supplied body query)
        \<and> sorted out \<and> distinct out \<and> set out = supplied body query)"
proof -
  have fin: "finite (supplied body query)" by (simp add: supplied_def)
  have e: "collect_identities body query = [] \<longleftrightarrow> supplied body query = {}"
    using set_collect_identities [of body query] by (metis set_empty)
  show ?thesis 
    using fin e sort_collect_identities [of body query]
    by (auto simp: delete_entities_def Let_def split: prod.splits sum.splits if_splits)
qed

theorem delete_entities_sorted_witness:
  "supplied BodyNone (Some []) = {}
   \<and> delete_entities (MockBackend id) (mock_init [Box_doc]) BodyNone (Some [])
       = (mock_init [Box_doc], Inl (HTTPException HTTP_400_BAD_REQUEST))
   \<and> delete_entities (MockBackend id) (mock_init [Box_doc])
        (BodyList [''http://x.org/0.1/b'', ''http://x.org/0.1/Box'', ''http://x.org/0.1/b''])
        (Some [''http://x.org/0.1/A''])
       = (mock_init [], Inr (HTTP_200_OK,
            [''http://x.org/0.1/A'', ''http://x.org/0.1/Box'', ''http://x.org/0.1/b'']))
   \<and> sorted [''http://x.org/0.1/A'', ''http://x.org/0.1/Box'', ''http://x.org/0.1/b'']
   \<and> set [''http://x.org/0.1/A'', ''http://x.org/0.1/Box'', ''http://x.org/0.1/b'']
       = supplied
           (BodyList [''http://x.org/0.1/b'', ''http://x.org/0.1/Box'', ''http://x.org/0.1/b''])
           (Some [''http://x.org/0.1/A''])"
proof -
  have h1: "supplied BodyNone (Some []) = {}"
    by (simp add: supplied_def)
  have h2: "delete_entities (MockBackend id) (mock_init [Box_doc])
        (BodyList [''http://x.org/0.1/b'', ''http://x.org/0.1/Box'', ''http://x.org/0.1/b''])
        (Some [''http://x.org/0.1/A''])
       = (mock_init [], Inr (HTTP_200_OK,
            [''http://x.org/0.1/A'', ''http://x.org/0.1/Box'', ''http://x.org/0.1/b'']))"
    by code_simp
  from h1 have g1: "delete_entities (MockBackend id) (mock_init [Box_doc]) BodyNone (Some [])
       = (mock_init [Box_doc], Inl (HTTPException HTTP_400_BAD_REQUEST))"
    using delete_entities_sorted [of BodyNone "Some []" "MockBackend id" "mock_init [Box_doc]"]
    by blast
  from h2 have g2: "sorted [''http://x.org/0.1/A'', ''http://x.org/0.1/Box'', ''http://x.org/0.1/b'']
   \<and> set [''http://x.org/0.1/A'', ''http://x.org/0.1/Box'', ''http://x.org/0.1/b'']
       = supplied
           (BodyList [''http://x.org/0.1/b'', ''http://x.org/0.1/Box'', ''http://x.org/0.1/b''])
           (Some [''http://x.org/0.1/A''])"
    using delete_entities_sorted [of
        "BodyList [''http://x.org/0.1/b'', ''http://x.org/0.1/Box'', ''http://x.org/0.1/b'']"
        "Some [''http://x.org/0.1/A'']" "MockBackend id" "mock_init [Box_doc]" "mock_init []"
        HTTP_200_OK "[''http://x.org/0.1/A'', ''http://x.org/0.1/Box'', ''http://x.org/0.1/b'']"]
    by blast
  from h1 h2 g1 g2 show ?thesis by blast
qed

section \<open>Search: the union of the filters\<close>









end
